theory Spec2Isabelle
  imports Complex_Main
begin

section \<open>Market Bar POS simulator: data model\<close>

text \<open>
  A \<^verbatim>\<open>number\<close> of a request or of the catalog is a finite double, written as the rational
  it is; comparisons of such numbers are the comparisons of the rationals. Strings are byte
  strings; a \<^verbatim>\<open>Date\<close> is its millisecond timestamp. A \<^verbatim>\<open>Map<string, T>\<close> is a partial
  function from keys to values.
\<close>

type_synonym number = rat
type_synonym date = nat

subsection \<open>Binary64 arithmetic\<close>

text \<open>
  What the arithmetic of \<^verbatim>\<open>number\<close> computes is a double: a finite one, an infinity or
  NaN. Negative zero is not told from zero (both print as 0 and compare equal).
\<close>

datatype double = Fin rat | PosInf | NegInf | NaN

definition pow2 :: "int \<Rightarrow> rat" where
  "pow2 e = (if 0 \<le> e then 2 ^ nat e else 1 / 2 ^ nat (- e))"

text \<open>The number of halvings that bring a positive integer below 2: the floor of its binary logarithm.\<close>

function flog2 :: "int \<Rightarrow> int" where
  "flog2 n = (if n < 2 then 0 else 1 + flog2 (n div 2))"
  by pat_completeness auto
termination
  by (relation "measure nat") auto

declare flog2.simps [simp del]

text \<open>The binary exponent of a positive rational \<open>x\<close>: the \<open>e\<close> with \<open>2 ^ e \<le> x < 2 ^ (e + 1)\<close>.\<close>

definition ilog2 :: "rat \<Rightarrow> int" where
  "ilog2 x =
     (case quotient_of x of
        (p, q) \<Rightarrow>
          (let d = flog2 p - flog2 q
           in if pow2 d \<le> x then d else d - 1))"

definition round_half_even :: "rat \<Rightarrow> int" where
  "round_half_even x =
     (let f = \<lfloor>x\<rfloor>; r = x - of_int f
      in if r < 1 / 2 then f
         else if 1 / 2 < r then f + 1
         else if even f then f else f + 1)"

text \<open>
  The double nearest to a rational, a tie going to the even significand: 53 significant
  bits, exponents from -1022 (below it the spacing of the subnormal numbers stays
  \<open>2 ^ -1074\<close>), and an infinity when the rounded magnitude reaches \<open>2 ^ 1024\<close>. It is how
  every arithmetic result is rounded, and what a decimal numeral of the source or of a JSON
  body denotes: 0.0825 is \<open>binary64 (825 / 10000)\<close>.
\<close>

definition binary64 :: "rat \<Rightarrow> double" where
  "binary64 x =
     (if x = 0 then Fin 0
      else
        (let a = \<bar>x\<bar>;
             e = max (ilog2 a) (- 1022);
             q = pow2 (e - 52);
             n = round_half_even (a / q)
         in if 1024 \<le> e \<or> (e = 1023 \<and> 2 ^ 53 \<le> n)
            then (if 0 < x then PosInf else NegInf)
            else Fin (if 0 < x then of_int n * q else - (of_int n * q))))"

text \<open>\<^verbatim>\<open>x + y\<close> and \<^verbatim>\<open>x * y\<close> on doubles.\<close>

fun js_add :: "double \<Rightarrow> double \<Rightarrow> double" where
  "js_add (Fin a) (Fin b) = binary64 (a + b)"
| "js_add NaN y = NaN"
| "js_add x NaN = NaN"
| "js_add PosInf NegInf = NaN"
| "js_add NegInf PosInf = NaN"
| "js_add PosInf y = PosInf"
| "js_add NegInf y = NegInf"
| "js_add x PosInf = PosInf"
| "js_add x NegInf = NegInf"

definition signed_inf :: "bool \<Rightarrow> double" where
  "signed_inf positive = (if positive then PosInf else NegInf)"

fun js_mul :: "double \<Rightarrow> double \<Rightarrow> double" where
  "js_mul (Fin a) (Fin b) = binary64 (a * b)"
| "js_mul NaN y = NaN"
| "js_mul x NaN = NaN"
| "js_mul PosInf PosInf = PosInf"
| "js_mul PosInf NegInf = NegInf"
| "js_mul NegInf PosInf = NegInf"
| "js_mul NegInf NegInf = PosInf"
| "js_mul PosInf (Fin b) = (if b = 0 then NaN else signed_inf (0 < b))"
| "js_mul NegInf (Fin b) = (if b = 0 then NaN else signed_inf (b < 0))"
| "js_mul (Fin a) PosInf = (if a = 0 then NaN else signed_inf (0 < a))"
| "js_mul (Fin a) NegInf = (if a = 0 then NaN else signed_inf (a < 0))"

text \<open>\<^verbatim>\<open>x / 100\<close>: the division of a double by the constant 100.\<close>

fun js_div_100 :: "double \<Rightarrow> double" where
  "js_div_100 (Fin a) = binary64 (a / 100)"
| "js_div_100 PosInf = PosInf"
| "js_div_100 NegInf = NegInf"
| "js_div_100 NaN = NaN"

text \<open>\<^verbatim>\<open>interface CatalogItem\<close> of types.ts.\<close>

record CatalogItem =
  ci_id :: string
  name :: string
  category :: string
  price :: number
  minPrice :: number
  maxPrice :: number
  taxRate :: number
  isActive :: bool
  createdAt :: date
  updatedAt :: date

text \<open>\<^verbatim>\<open>interface OrderItem\<close> of types.ts.\<close>

record OrderItem =
  oi_itemId :: string
  oi_name :: string
  oi_price :: number
  oi_quantity :: number
  oi_subtotal :: double

text \<open>One element of \<^verbatim>\<open>CreateOrderRequest.items\<close>.\<close>

record OrderLine =
  itemId :: string
  qty :: number

text \<open>The object returned by \<^verbatim>\<open>calculateOrderTotals\<close>.\<close>

record OrderTotals =
  ot_items :: "OrderItem list"
  ot_subtotal :: double
  ot_tax :: double
  ot_total :: double

text \<open>A thrown \<^verbatim>\<open>Error\<close> with its message, and the \<^verbatim>\<open>RangeError\<close> of the crypto library.\<close>

datatype error = Error string

datatype crypto_error = RangeError

fun error_message :: "error \<Rightarrow> string" where
  "error_message (Error m) = m"

section \<open>utils.ts\<close>

subsection \<open>Rounding\<close>

text \<open>
  \<^verbatim>\<open>Math.round(x)\<close> is the integer nearest to \<open>x\<close>, a tie going up; that integer is a
  double whenever \<open>x\<close> is one, and an infinity or NaN is returned as it is.
  \<^verbatim>\<open>Math.round(x * 100) / 100\<close> is the expression that rounds each aggregate: a product
  in binary64, the rounding to an integer, and a division in binary64.
\<close>

fun Math_round :: "double \<Rightarrow> double" where
  "Math_round (Fin a) = Fin (of_int \<lfloor>a + 1 / 2\<rfloor>)"
| "Math_round PosInf = PosInf"
| "Math_round NegInf = NegInf"
| "Math_round NaN = NaN"

definition round2 :: "double \<Rightarrow> double" where
  "round2 x = js_div_100 (Math_round (js_mul x (Fin 100)))"

subsection \<open>Signatures\<close>

text \<open>
  \<^verbatim>\<open>crypto.createHmac('sha256', secret).update(payload).digest('hex')\<close> belongs to the
  Node runtime; it is the parameter \<open>hmac\<close>, a function of the secret and the payload.
\<close>

type_synonym hmac_fn = "string \<Rightarrow> string \<Rightarrow> string"

definition generateHmacSignature :: "hmac_fn \<Rightarrow> string \<Rightarrow> string \<Rightarrow> string" where
  "generateHmacSignature hmac payload secret = hmac secret payload"

text \<open>
  \<^verbatim>\<open>Buffer.from(s)\<close> is the byte sequence of the string. \<^verbatim>\<open>crypto.timingSafeEqual(a, b)\<close>
  throws a \<^verbatim>\<open>RangeError\<close> when the two buffers differ in byte length and otherwise tells
  whether they hold the same bytes.
\<close>

definition Buffer_from :: "string \<Rightarrow> char list" where
  "Buffer_from s = s"

definition timingSafeEqual :: "char list \<Rightarrow> char list \<Rightarrow> crypto_error + bool" where
  "timingSafeEqual a b = (if length a = length b then Inr (a = b) else Inl RangeError)"

definition verifyHmacSignature ::
  "hmac_fn \<Rightarrow> string \<Rightarrow> string \<Rightarrow> string \<Rightarrow> crypto_error + bool" where
  "verifyHmacSignature hmac payload signature secret =
     (let expectedSignature = generateHmacSignature hmac payload secret
      in timingSafeEqual (Buffer_from signature) (Buffer_from expectedSignature))"

subsection \<open>Price guardrails\<close>

text \<open>
  The result of \<^verbatim>\<open>validatePrice\<close>. The template literals of the two messages print
  numbers; \<open>shw\<close> is JavaScript's conversion of a number to a string.
\<close>

record validation =
  valid :: bool
  message :: "string option"

definition validatePrice ::
  "(number \<Rightarrow> string) \<Rightarrow> CatalogItem \<Rightarrow> number \<Rightarrow> bool \<Rightarrow> validation" where
  "validatePrice shw item newPrice overrideGuardrails =
     (if overrideGuardrails then \<lparr>valid = True, message = None\<rparr>
      else if newPrice < minPrice item then
        \<lparr>valid = False,
         message = Some (''Price $'' @ shw newPrice @ '' is below minimum $'' @ shw (minPrice item))\<rparr>
      else if newPrice > maxPrice item then
        \<lparr>valid = False,
         message = Some (''Price $'' @ shw newPrice @ '' is above maximum $'' @ shw (maxPrice item))\<rparr>
      else \<lparr>valid = True, message = None\<rparr>)"

subsection \<open>Order totals\<close>

text \<open>
  The \<^verbatim>\<open>for\<close> loop of \<^verbatim>\<open>calculateOrderTotals\<close>, with its three accumulators. A line whose
  item is absent from the catalog throws, and nothing is returned. The products and the
  sums are those of binary64, on the doubles that the price, the quantity and the tax rate
  denote.
\<close>

fun totals_loop ::
  "(string \<rightharpoonup> CatalogItem) \<Rightarrow> OrderLine list \<Rightarrow> double \<Rightarrow> double \<Rightarrow> OrderItem list
     \<Rightarrow> error + (double \<times> double \<times> OrderItem list)" where
  "totals_loop catalog [] subtotal totalTax orderItems = Inr (subtotal, totalTax, orderItems)"
| "totals_loop catalog (item # rest) subtotal totalTax orderItems =
     (case catalog (itemId item) of
        None \<Rightarrow> Inl (Error (''Item '' @ itemId item @ '' not found''))
      | Some catalogItem \<Rightarrow>
          (let itemSubtotal = js_mul (binary64 (price catalogItem)) (binary64 (qty item));
               itemTax = js_mul itemSubtotal (binary64 (taxRate catalogItem))
           in totals_loop catalog rest (js_add subtotal itemSubtotal) (js_add totalTax itemTax)
                (orderItems @
                 [\<lparr>oi_itemId = itemId item, oi_name = name catalogItem,
                   oi_price = price catalogItem, oi_quantity = qty item,
                   oi_subtotal = itemSubtotal\<rparr>])))"

definition calculateOrderTotals ::
  "OrderLine list \<Rightarrow> (string \<rightharpoonup> CatalogItem) \<Rightarrow> error + OrderTotals" where
  "calculateOrderTotals lines catalog =
     (case totals_loop catalog lines (Fin 0) (Fin 0) [] of
        Inl e \<Rightarrow> Inl e
      | Inr (subtotal, totalTax, orderItems) \<Rightarrow>
          Inr \<lparr>ot_items = orderItems,
               ot_subtotal = round2 subtotal,
               ot_tax = round2 totalTax,
               ot_total = round2 (js_add subtotal totalTax)\<rparr>)"

subsection \<open>Webhook delivery\<close>

text \<open>\<^verbatim>\<open>interface WebhookPayload\<close> of types.ts.\<close>

record WebhookItem =
  wi_itemId :: string
  wi_name :: string
  wi_quantity :: number
  wi_price :: number

record WebhookPayload =
  wp_orderId :: string
  wp_venueId :: string
  wp_timestamp :: date
  wp_items :: "WebhookItem list"
  wp_subtotal :: double
  wp_tax :: double
  wp_total :: double

text \<open>
  What one \<^verbatim>\<open>await fetch(...)\<close> gives: a response with its status, or a transport error.
  The endpoint is the function \<open>env\<close> from the number of the attempt (counted from 0) to
  what that attempt gives. \<^verbatim>\<open>response.ok\<close> holds for a status from 200 to 299.
\<close>

datatype fetch_result = HttpResponse nat | FetchFailed string

definition response_ok :: "nat \<Rightarrow> bool" where
  "response_ok st = (200 \<le> st \<and> st \<le> 299)"

text \<open>
  What \<^verbatim>\<open>sendWebhook\<close> does to the outside, in order: a POST (url, the signature header,
  the body) and a \<^verbatim>\<open>sleep\<close> of so many milliseconds. Its promise resolves or
  rejects with the error thrown.
\<close>

datatype wh_event = Post string string string | Sleep nat

datatype webhook_failure = FailedWithStatus nat | FetchError string

datatype promise = Resolved | Rejected webhook_failure

text \<open>
  One turn of the \<^verbatim>\<open>while\<close> loop. The \<^verbatim>\<open>try\<close> block returns on a 2xx response, goes
  round again after a sleep when retries remain, and throws otherwise; whatever is thrown in
  the block, by \<^verbatim>\<open>fetch\<close> or by the block itself, reaches the \<^verbatim>\<open>catch\<close> block, which goes
  round again after a sleep when retries remain and throws the error again otherwise.
\<close>

datatype try_result = Returned | Retrying | Thrown webhook_failure

definition try_block :: "fetch_result \<Rightarrow> nat \<Rightarrow> int \<Rightarrow> try_result" where
  "try_block r retryCount maxRetries =
     (case r of
        FetchFailed e \<Rightarrow> Thrown (FetchError e)
      | HttpResponse st \<Rightarrow>
          if response_ok st then Returned
          else if int retryCount < maxRetries then Retrying
          else Thrown (FailedWithStatus st))"

definition catch_block :: "webhook_failure \<Rightarrow> nat \<Rightarrow> int \<Rightarrow> try_result" where
  "catch_block e retryCount maxRetries =
     (if int retryCount < maxRetries then Retrying else Thrown e)"

definition attempt :: "fetch_result \<Rightarrow> nat \<Rightarrow> int \<Rightarrow> try_result" where
  "attempt r retryCount maxRetries =
     (case try_block r retryCount maxRetries of
        Thrown e \<Rightarrow> catch_block e retryCount maxRetries
      | Returned \<Rightarrow> Returned
      | Retrying \<Rightarrow> Retrying)"

function sendWebhook_loop ::
  "(nat \<Rightarrow> fetch_result) \<Rightarrow> wh_event \<Rightarrow> int \<Rightarrow> nat \<Rightarrow> nat \<Rightarrow> wh_event list \<times> promise" where
  "sendWebhook_loop env post maxRetries retryCount delay =
     (if int retryCount \<le> maxRetries then
        (case attempt (env retryCount) retryCount maxRetries of
           Returned \<Rightarrow> ([post], Resolved)
         | Thrown e \<Rightarrow> ([post], Rejected e)
         | Retrying \<Rightarrow>
             (case sendWebhook_loop env post maxRetries (Suc retryCount) (delay * 2) of
                (evs, p) \<Rightarrow> (post # Sleep delay # evs, p)))
      else ([], Resolved))"
  by pat_completeness auto
termination
  by (relation "measure (\<lambda>(env, post, maxRetries, retryCount, delay).
        nat (maxRetries + 1 - int retryCount))") auto

declare sendWebhook_loop.simps [simp del]

text \<open>
  \<^verbatim>\<open>sendWebhook\<close>: the payload is serialised once (\<open>stringify\<close> is \<^verbatim>\<open>JSON.stringify\<close>) and
  signed once; the loop starts with no retry made and a delay of 1000 ms.
\<close>

definition sendWebhook ::
  "hmac_fn \<Rightarrow> (WebhookPayload \<Rightarrow> string) \<Rightarrow> (nat \<Rightarrow> fetch_result)
     \<Rightarrow> string \<Rightarrow> WebhookPayload \<Rightarrow> string \<Rightarrow> int \<Rightarrow> wh_event list \<times> promise" where
  "sendWebhook hmac stringify env url payload secret maxRetries =
     (let payloadString = stringify payload;
          signature = generateHmacSignature hmac payloadString secret
      in sendWebhook_loop env (Post url signature payloadString) maxRetries 0 1000)"

section \<open>server.ts\<close>

subsection \<open>Stored entities, requests and replies\<close>

datatype order_status = pending | completed | cancelled

record Order =
  o_id :: string
  o_items :: "OrderItem list"
  o_subtotal :: double
  o_tax :: double
  o_total :: double
  o_status :: order_status
  o_createdAt :: date

datatype promotion_kind = percent_off | amount_off

record Promotion =
  p_id :: string
  p_itemId :: string
  p_kind :: promotion_kind
  p_value :: number
  p_startsAt :: "date option"
  p_endsAt :: "date option"
  p_isActive :: bool
  p_createdAt :: date

text \<open>
  The request bodies are parsed JSON of the declared request types: a field that is missing
  is \<open>None\<close>. The tests \<^verbatim>\<open>== null\<close> and \<^verbatim>\<open>!x\<close> of the routes that create take a
  \<^verbatim>\<open>null\<close> as they take a missing field; the update of an item tests \<^verbatim>\<open>!== undefined\<close>,
  and its request type has no \<^verbatim>\<open>null\<close>.
\<close>

record CreateItemRequest =
  cir_name :: "string option"
  cir_category :: "string option"
  cir_price :: "number option"
  cir_minPrice :: "number option"
  cir_maxPrice :: "number option"
  cir_taxRate :: "number option"

record UpdateItemRequest =
  uir_name :: "string option"
  uir_category :: "string option"
  uir_price :: "number option"
  uir_minPrice :: "number option"
  uir_maxPrice :: "number option"
  uir_taxRate :: "number option"
  uir_isActive :: "bool option"

record PriceUpdateRequest =
  pur_price :: "number option"
  pur_publish :: "bool option"
  pur_overrideGuardrails :: "bool option"

record CreatePromotionRequest =
  cpr_itemId :: "string option"
  cpr_kind :: "promotion_kind option"
  cpr_value :: "number option"
  cpr_startsAt :: "string option"
  cpr_endsAt :: "string option"

record CreateOrderRequest =
  cor_items :: "OrderLine list option"

text \<open>The in-memory stores and the counter \<^verbatim>\<open>menuVersion\<close>, which starts at 1.\<close>

record store =
  catalog :: "string \<rightharpoonup> CatalogItem"
  orders :: "string \<rightharpoonup> Order"
  promotions :: "string \<rightharpoonup> Promotion"
  menuVersion :: int

record config =
  API_KEY :: string
  WEBHOOK_SECRET :: string
  MARKETBAR_WEBHOOK_URL :: string

text \<open>The messages passed to \<^verbatim>\<open>broadcast\<close>, with the shapes of \<^verbatim>\<open>data\<close> the routes build.\<close>

datatype ws_event = order_created | price_updated | menu_published | promotion_created

datatype ws_data =
    MenuItemData int CatalogItem
  | MenuDeletedData int string
  | MenuVersionData int
  | PriceData string string number number "int option"
  | PromotionData Promotion
  | OrderData Order

record WebSocketMessage =
  event :: ws_event
  data :: ws_data
  ts :: date

text \<open>The JSON bodies the routes answer with.\<close>

datatype response_body =
    ErrorBody "string option"
  | ItemBody CatalogItem
  | DeletedBody string bool int
  | PricingBody CatalogItem int bool
  | PromotionBody Promotion
  | PublishBody int date
  | OrderBody Order

record webhook_call =
  wc_url :: string
  wc_payload :: WebhookPayload
  wc_secret :: string

text \<open>
  What a route handler leaves behind: the stores, the HTTP response, the messages it
  broadcast (in order) and the webhook deliveries it started without awaiting them.
\<close>

record reply =
  new_state :: store
  res_status :: nat
  res_body :: response_body
  broadcasts :: "WebSocketMessage list"
  webhooks :: "webhook_call list"

definition respond :: "store \<Rightarrow> nat \<Rightarrow> response_body \<Rightarrow> reply" where
  "respond s st b = \<lparr>new_state = s, res_status = st, res_body = b, broadcasts = [], webhooks = []\<rparr>"

subsection \<open>Middleware\<close>

text \<open>\<^verbatim>\<open>requireApiKey\<close> lets the request through when the header is present, non-empty and equal to the key.\<close>

definition requireApiKey :: "config \<Rightarrow> string option \<Rightarrow> bool" where
  "requireApiKey cfg providedKey =
     (case providedKey of
        None \<Rightarrow> False
      | Some k \<Rightarrow> if k = [] then False else k = API_KEY cfg)"

definition unauthorized :: "store \<Rightarrow> reply" where
  "unauthorized s = respond s 401 (ErrorBody (Some ''Unauthorized: Invalid API key''))"

text \<open>\<^verbatim>\<open>!x\<close> for an optional string: absent or empty.\<close>

definition falsy_string :: "string option \<Rightarrow> bool" where
  "falsy_string x = (case x of None \<Rightarrow> True | Some v \<Rightarrow> v = [])"

text \<open>\<^verbatim>\<open>x || d\<close> for an optional number: \<open>d\<close> when \<open>x\<close> is absent or zero.\<close>

definition number_or :: "number option \<Rightarrow> number \<Rightarrow> number" where
  "number_or x d = (case x of None \<Rightarrow> d | Some v \<Rightarrow> if v = 0 then d else v)"

text \<open>The truth value of an optional boolean flag.\<close>

definition truthy :: "bool option \<Rightarrow> bool" where
  "truthy x = (case x of None \<Rightarrow> False | Some b \<Rightarrow> b)"

subsection \<open>Catalog routes\<close>

text \<open>\<^verbatim>\<open>POST /catalog/items\<close>; \<open>newId\<close> is what \<^verbatim>\<open>generateId()\<close> returns and \<open>now\<close> is \<^verbatim>\<open>new Date()\<close>.\<close>

definition createItem :: "string \<Rightarrow> date \<Rightarrow> store \<Rightarrow> CreateItemRequest \<Rightarrow> reply" where
  "createItem newId now s body =
     (case (cir_name body, cir_category body, cir_price body, cir_minPrice body, cir_maxPrice body) of
        (Some nm, Some cat, Some pr, Some mn, Some mx) \<Rightarrow>
          if nm = [] then respond s 400 (ErrorBody (Some ''Missing required fields''))
          else if cat = [] then respond s 400 (ErrorBody (Some ''Missing required fields''))
          else
            (let item = \<lparr>ci_id = newId, name = nm, category = cat, price = pr,
                         minPrice = mn, maxPrice = mx,
                         taxRate = number_or (cir_taxRate body) 0.0825,
                         isActive = True, createdAt = now, updatedAt = now\<rparr>;
                 s' = s\<lparr>catalog := (catalog s)(ci_id item \<mapsto> item),
                        menuVersion := menuVersion s + 1\<rparr>
             in \<lparr>new_state = s', res_status = 201, res_body = ItemBody item,
                 broadcasts = [\<lparr>event = menu_published,
                                data = MenuItemData (menuVersion s') item, ts = now\<rparr>],
                 webhooks = []\<rparr>)
      | _ \<Rightarrow> respond s 400 (ErrorBody (Some ''Missing required fields'')))"

text \<open>The field assignments of \<^verbatim>\<open>PATCH /catalog/items/:id\<close>, each made when the field is given.\<close>

definition set_opt :: "'a option \<Rightarrow> 'a \<Rightarrow> 'a" where
  "set_opt x old = (case x of None \<Rightarrow> old | Some v \<Rightarrow> v)"

definition patch_item :: "UpdateItemRequest \<Rightarrow> date \<Rightarrow> CatalogItem \<Rightarrow> CatalogItem" where
  "patch_item body now item =
     item\<lparr>name := set_opt (uir_name body) (name item),
          category := set_opt (uir_category body) (category item),
          price := set_opt (uir_price body) (price item),
          minPrice := set_opt (uir_minPrice body) (minPrice item),
          maxPrice := set_opt (uir_maxPrice body) (maxPrice item),
          taxRate := set_opt (uir_taxRate body) (taxRate item),
          isActive := set_opt (uir_isActive body) (isActive item),
          updatedAt := now\<rparr>"

definition updateItem :: "date \<Rightarrow> store \<Rightarrow> string \<Rightarrow> UpdateItemRequest \<Rightarrow> reply" where
  "updateItem now s ident body =
     (case catalog s ident of
        None \<Rightarrow> respond s 404 (ErrorBody (Some ''Item not found''))
      | Some item \<Rightarrow>
          (let item' = patch_item body now item;
               s' = s\<lparr>catalog := (catalog s)(ident \<mapsto> item'),
                      menuVersion := menuVersion s + 1\<rparr>
           in \<lparr>new_state = s', res_status = 200, res_body = ItemBody item',
               broadcasts = [\<lparr>event = menu_published,
                              data = MenuItemData (menuVersion s') item', ts = updatedAt item'\<rparr>],
               webhooks = []\<rparr>))"

definition deleteItem :: "date \<Rightarrow> store \<Rightarrow> string \<Rightarrow> reply" where
  "deleteItem now s ident =
     (case catalog s ident of
        None \<Rightarrow> respond s 404 (ErrorBody (Some ''Item not found''))
      | Some item \<Rightarrow>
          (let s' = s\<lparr>catalog := (catalog s)(ident := None),
                      menuVersion := menuVersion s + 1\<rparr>
           in \<lparr>new_state = s', res_status = 200, res_body = DeletedBody ident True (menuVersion s'),
               broadcasts = [\<lparr>event = menu_published,
                              data = MenuDeletedData (menuVersion s') ident, ts = now\<rparr>],
               webhooks = []\<rparr>))"

subsection \<open>Pricing, promotions and publishing\<close>

text \<open>
  \<^verbatim>\<open>POST /pricing/:itemId\<close>. The catalog holds the item object itself, so the two
  assignments to \<^verbatim>\<open>item.price\<close> and \<^verbatim>\<open>item.updatedAt\<close> change the catalog entry.
\<close>

definition updatePrice ::
  "(number \<Rightarrow> string) \<Rightarrow> date \<Rightarrow> store \<Rightarrow> string \<Rightarrow> PriceUpdateRequest \<Rightarrow> reply" where
  "updatePrice shw now s ident body =
     (case pur_price body of
        None \<Rightarrow> respond s 400 (ErrorBody (Some ''Price is required''))
      | Some newPrice \<Rightarrow>
          (case catalog s ident of
             None \<Rightarrow> respond s 404 (ErrorBody (Some ''Item not found''))
           | Some item \<Rightarrow>
               (let validation =
                      validatePrice shw item newPrice (truthy (pur_overrideGuardrails body))
                in if valid validation then
                     (let oldPrice = price item;
                          item' = item\<lparr>price := newPrice, updatedAt := now\<rparr>;
                          s' = s\<lparr>catalog := (catalog s)(ident \<mapsto> item'),
                                 menuVersion := (if truthy (pur_publish body)
                                                 then menuVersion s + 1 else menuVersion s)\<rparr>
                      in \<lparr>new_state = s', res_status = 200,
                          res_body = PricingBody item' (menuVersion s') (truthy (pur_publish body)),
                          broadcasts =
                            [\<lparr>event = price_updated,
                              data = PriceData ident (name item') oldPrice newPrice
                                       (if truthy (pur_publish body)
                                        then Some (menuVersion s') else None),
                              ts = updatedAt item'\<rparr>],
                          webhooks = []\<rparr>)
                   else respond s 400 (ErrorBody (message validation)))))"

text \<open>
  \<^verbatim>\<open>POST /promotions\<close>; \<open>parseDate\<close> is \<^verbatim>\<open>new Date(string)\<close>, applied to a start or end
  that is given and not empty.
\<close>

definition date_opt :: "(string \<Rightarrow> date) \<Rightarrow> string option \<Rightarrow> date option" where
  "date_opt parseDate x =
     (case x of None \<Rightarrow> None | Some v \<Rightarrow> if v = [] then None else Some (parseDate v))"

definition createPromotion ::
  "(string \<Rightarrow> date) \<Rightarrow> string \<Rightarrow> date \<Rightarrow> store \<Rightarrow> CreatePromotionRequest \<Rightarrow> reply" where
  "createPromotion parseDate newId now s body =
     (case (cpr_itemId body, cpr_kind body, cpr_value body) of
        (Some iid, Some k, Some v) \<Rightarrow>
          if iid = [] then respond s 400 (ErrorBody (Some ''Missing required fields''))
          else
            (case catalog s iid of
               None \<Rightarrow> respond s 404 (ErrorBody (Some ''Item not found''))
             | Some item \<Rightarrow>
                 (let promotion = \<lparr>p_id = newId, p_itemId = iid, p_kind = k, p_value = v,
                                   p_startsAt = date_opt parseDate (cpr_startsAt body),
                                   p_endsAt = date_opt parseDate (cpr_endsAt body),
                                   p_isActive = True, p_createdAt = now\<rparr>;
                      s' = s\<lparr>promotions := (promotions s)(p_id promotion \<mapsto> promotion)\<rparr>
                  in \<lparr>new_state = s', res_status = 201, res_body = PromotionBody promotion,
                      broadcasts = [\<lparr>event = promotion_created,
                                     data = PromotionData promotion, ts = now\<rparr>],
                      webhooks = []\<rparr>))
      | _ \<Rightarrow> respond s 400 (ErrorBody (Some ''Missing required fields'')))"

definition publishMenu :: "date \<Rightarrow> store \<Rightarrow> reply" where
  "publishMenu now s =
     (let s' = s\<lparr>menuVersion := menuVersion s + 1\<rparr>
      in \<lparr>new_state = s', res_status = 200, res_body = PublishBody (menuVersion s') now,
          broadcasts = [\<lparr>event = menu_published,
                         data = MenuVersionData (menuVersion s'), ts = now\<rparr>],
          webhooks = []\<rparr>)"

subsection \<open>Orders\<close>

text \<open>
  \<^verbatim>\<open>POST /orders\<close>. What \<^verbatim>\<open>calculateOrderTotals\<close> throws is caught and answered with
  status 400 and the error's message. The webhook is started only when a URL is configured,
  and its promise is not awaited.
\<close>

definition order_of :: "string \<Rightarrow> date \<Rightarrow> OrderTotals \<Rightarrow> Order" where
  "order_of newId now orderCalculation =
     \<lparr>o_id = newId,
      o_items = map (\<lambda>item. \<lparr>oi_itemId = oi_itemId item, oi_name = oi_name item,
                               oi_price = oi_price item, oi_quantity = oi_quantity item,
                               oi_subtotal = oi_subtotal item\<rparr>) (ot_items orderCalculation),
      o_subtotal = ot_subtotal orderCalculation,
      o_tax = ot_tax orderCalculation,
      o_total = ot_total orderCalculation,
      o_status = completed,
      o_createdAt = now\<rparr>"

definition webhookPayload_of :: "Order \<Rightarrow> date \<Rightarrow> WebhookPayload" where
  "webhookPayload_of order now =
     \<lparr>wp_orderId = o_id order,
      wp_venueId = ''pos-sim-venue-001'',
      wp_timestamp = now,
      wp_items = map (\<lambda>item. \<lparr>wi_itemId = oi_itemId item, wi_name = oi_name item,
                                wi_quantity = oi_quantity item, wi_price = oi_price item\<rparr>)
                   (o_items order),
      wp_subtotal = o_subtotal order,
      wp_tax = o_tax order,
      wp_total = o_total order\<rparr>"

definition createOrder :: "config \<Rightarrow> string \<Rightarrow> date \<Rightarrow> store \<Rightarrow> CreateOrderRequest \<Rightarrow> reply" where
  "createOrder cfg newId now s body =
     (case cor_items body of
        None \<Rightarrow> respond s 400 (ErrorBody (Some ''Items array is required and must not be empty''))
      | Some lines \<Rightarrow>
          if lines = [] then
            respond s 400 (ErrorBody (Some ''Items array is required and must not be empty''))
          else
            (case calculateOrderTotals lines (catalog s) of
               Inl e \<Rightarrow> respond s 400 (ErrorBody (Some (error_message e)))
             | Inr orderCalculation \<Rightarrow>
                 (let order = order_of newId now orderCalculation;
                      s' = s\<lparr>orders := (orders s)(o_id order \<mapsto> order)\<rparr>
                  in \<lparr>new_state = s', res_status = 201, res_body = OrderBody order,
                      broadcasts = [\<lparr>event = order_created, data = OrderData order, ts = now\<rparr>],
                      webhooks =
                        (if MARKETBAR_WEBHOOK_URL cfg = [] then []
                         else [\<lparr>wc_url = MARKETBAR_WEBHOOK_URL cfg,
                                 wc_payload = webhookPayload_of order now,
                                 wc_secret = WEBHOOK_SECRET cfg\<rparr>])\<rparr>)))"

text \<open>
  A started delivery: \<^verbatim>\<open>sendWebhook(url, payload, secret).catch(...)\<close>, with the default
  of 3 retries. The handler of \<^verbatim>\<open>catch\<close> writes the error to the console; the result is
  what the delivery did to the outside and what it logged.
\<close>

definition run_webhook ::
  "hmac_fn \<Rightarrow> (WebhookPayload \<Rightarrow> string) \<Rightarrow> (nat \<Rightarrow> fetch_result) \<Rightarrow> webhook_call
     \<Rightarrow> wh_event list \<times> webhook_failure list" where
  "run_webhook hmac stringify env call =
     (case sendWebhook hmac stringify env (wc_url call) (wc_payload call) (wc_secret call) 3 of
        (evs, Resolved) \<Rightarrow> (evs, [])
      | (evs, Rejected e) \<Rightarrow> (evs, [e]))"

subsection \<open>The operations\<close>

text \<open>
  The seven state-changing routes. Those behind \<^verbatim>\<open>requireApiKey\<close> carry the value of the
  \<^verbatim>\<open>x-api-key\<close> header; \<^verbatim>\<open>POST /orders\<close> is open.
\<close>

datatype request =
    PostCatalogItem "string option" CreateItemRequest
  | PatchCatalogItem "string option" string UpdateItemRequest
  | DeleteCatalogItem "string option" string
  | PostPricing "string option" string PriceUpdateRequest
  | PostPromotion "string option" CreatePromotionRequest
  | PostMenuPublish "string option"
  | PostOrder CreateOrderRequest

definition guarded :: "config \<Rightarrow> string option \<Rightarrow> store \<Rightarrow> reply \<Rightarrow> reply" where
  "guarded cfg providedKey s r = (if requireApiKey cfg providedKey then r else unauthorized s)"

fun handle ::
  "config \<Rightarrow> (number \<Rightarrow> string) \<Rightarrow> (string \<Rightarrow> date) \<Rightarrow> string \<Rightarrow> date \<Rightarrow> store \<Rightarrow> request \<Rightarrow> reply" where
  "handle cfg shw parseDate newId now s (PostCatalogItem k body) =
     guarded cfg k s (createItem newId now s body)"
| "handle cfg shw parseDate newId now s (PatchCatalogItem k ident body) =
     guarded cfg k s (updateItem now s ident body)"
| "handle cfg shw parseDate newId now s (DeleteCatalogItem k ident) =
     guarded cfg k s (deleteItem now s ident)"
| "handle cfg shw parseDate newId now s (PostPricing k ident body) =
     guarded cfg k s (updatePrice shw now s ident body)"
| "handle cfg shw parseDate newId now s (PostPromotion k body) =
     guarded cfg k s (createPromotion parseDate newId now s body)"
| "handle cfg shw parseDate newId now s (PostMenuPublish k) =
     guarded cfg k s (publishMenu now s)"
| "handle cfg shw parseDate newId now s (PostOrder body) =
     createOrder cfg newId now s body"

text \<open>
  A run of the server: the requests in the order they are handled, each with the identifier
  \<^verbatim>\<open>generateId()\<close> would give it and the time at which it is handled.
\<close>

fun run ::
  "config \<Rightarrow> (number \<Rightarrow> string) \<Rightarrow> (string \<Rightarrow> date) \<Rightarrow> store \<Rightarrow> (string \<times> date \<times> request) list \<Rightarrow> store" where
  "run cfg shw parseDate s [] = s"
| "run cfg shw parseDate s ((newId, now, req) # rest) =
     run cfg shw parseDate (new_state (handle cfg shw parseDate newId now s req)) rest"

text \<open>
  An order request together with the deliveries it started: the reply goes to the HTTP
  client, and each delivery then runs on its own against the endpoint \<open>env\<close>.
\<close>

definition postOrder_with_delivery ::
  "hmac_fn \<Rightarrow> (WebhookPayload \<Rightarrow> string) \<Rightarrow> (nat \<Rightarrow> fetch_result) \<Rightarrow> config \<Rightarrow> string \<Rightarrow> date
     \<Rightarrow> store \<Rightarrow> CreateOrderRequest \<Rightarrow> reply \<times> (wh_event list \<times> webhook_failure list) list" where
  "postOrder_with_delivery hmac stringify env cfg newId now s body =
     (let r = createOrder cfg newId now s body
      in (r, map (run_webhook hmac stringify env) (webhooks r)))"

section \<open>Notions used to state the properties\<close>







text \<open>Whether a send succeeded (a 2xx response), and the error a failed send leaves.\<close>

definition fetch_ok :: "fetch_result \<Rightarrow> bool" where
  "fetch_ok r = (case r of HttpResponse st \<Rightarrow> response_ok st | FetchFailed e \<Rightarrow> False)"

definition failure_of :: "fetch_result \<Rightarrow> webhook_failure" where
  "failure_of r = (case r of HttpResponse st \<Rightarrow> FailedWithStatus st | FetchFailed e \<Rightarrow> FetchError e)"

text \<open>
  The sends and waits of a delivery whose first \<open>k\<close> sends fail and are retried, \<open>d\<close> being
  the first delay: each failed send is followed by a wait twice as long as the one before.
\<close>

definition backoff :: "wh_event \<Rightarrow> nat \<Rightarrow> nat \<Rightarrow> wh_event list" where
  "backoff post d k = concat (map (\<lambda>i. [post, Sleep (d * 2 ^ i)]) [0..<k])"

text \<open>
  The POST of a delivery, which carries the signature of the serialised payload and that
  payload as its body, and the test that tells a send from a wait.
\<close>

definition delivery_post ::
  "hmac_fn \<Rightarrow> (WebhookPayload \<Rightarrow> string) \<Rightarrow> string \<Rightarrow> WebhookPayload \<Rightarrow> string \<Rightarrow> wh_event" where
  "delivery_post hmac stringify url payload secret =
     Post url (generateHmacSignature hmac (stringify payload) secret) (stringify payload)"

definition is_post :: "wh_event \<Rightarrow> bool" where
  "is_post e = (case e of Post u sg b \<Rightarrow> True | Sleep d \<Rightarrow> False)"

section \<open>Concrete data for the examples\<close>

text \<open>
  A stand-in for the keyed hash with the 64 characters of a hexadecimal SHA-256 digest, the
  decimal digits of a whole number (what JavaScript prints for it), two items of the seed
  catalog, the stores after the first item is repriced to 8.1, and the configuration of the
  README.
\<close>

definition example_hmac :: hmac_fn where
  "example_hmac secret payload = replicate 64 (CHR ''0'')"

fun show_nat :: "nat \<Rightarrow> string" where
  "show_nat n =
     (if n < 10 then [char_of (48 + n)]
      else show_nat (n div 10) @ [char_of (48 + n mod 10)])"

declare show_nat.simps [simp del]

definition show_whole :: "number \<Rightarrow> string" where
  "show_whole x = show_nat (nat \<lfloor>x\<rfloor>)"

definition ipa :: CatalogItem where
  "ipa = \<lparr>ci_id = ''a1'', name = ''IPA Pint'', category = ''Beer'', price = 7, minPrice = 5,
          maxPrice = 12, taxRate = 0.0825, isActive = True, createdAt = 0, updatedAt = 0\<rparr>"

definition margarita :: CatalogItem where
  "margarita = \<lparr>ci_id = ''c3'', name = ''House Margarita'', category = ''Cocktails'', price = 12,
          minPrice = 9, maxPrice = 18, taxRate = 0.0825, isActive = True, createdAt = 0,
          updatedAt = 0\<rparr>"

definition seed_store :: store where
  "seed_store = \<lparr>catalog = [''a1'' \<mapsto> ipa, ''c3'' \<mapsto> margarita], orders = Map.empty,
                 promotions = Map.empty, menuVersion = 1\<rparr>"

definition repriced_store :: store where
  "repriced_store =
     seed_store\<lparr>catalog := (catalog seed_store)(''a1'' \<mapsto> ipa\<lparr>price := 8.1, updatedAt := 5\<rparr>)\<rparr>"

definition dev_config :: config where
  "dev_config = \<lparr>API_KEY = ''pos-sim-dev-key'', WEBHOOK_SECRET = ''supersecret'',
                 MARKETBAR_WEBHOOK_URL = ''http://localhost:4000/webhooks/pos''\<rparr>"

text \<open>
  A price update of the first seed item to 8, within its guardrails, sent with the key of
  the README, and a request to create an item whose tax rate is given as 0.
\<close>

definition example_price_update :: "bool option \<Rightarrow> request" where
  "example_price_update pb =
     PostPricing (Some ''pos-sim-dev-key'') ''a1''
       \<lparr>pur_price = Some 8, pur_publish = pb, pur_overrideGuardrails = None\<rparr>"

definition example_create_item :: CreateItemRequest where
  "example_create_item =
     \<lparr>cir_name = Some ''Water'', cir_category = Some ''Soft'', cir_price = Some 1,
      cir_minPrice = Some 0, cir_maxPrice = Some 2, cir_taxRate = Some 0\<rparr>"

text \<open>
  A serialisation standing for \<^verbatim>\<open>JSON.stringify\<close>, the payload of an order of two pints, an
  endpoint that answers every send with status 500, one that refuses the connection until
  the send numbered \<open>n\<close> and answers that one with 200, and the order of two pints with its
  totals.
\<close>

definition example_stringify :: "WebhookPayload \<Rightarrow> string" where
  "example_stringify p = ''{orderId:'' @ wp_orderId p @ ''}''"

definition example_payload :: WebhookPayload where
  "example_payload =
     \<lparr>wp_orderId = ''o1'', wp_venueId = ''pos-sim-venue-001'', wp_timestamp = 0,
      wp_items = [\<lparr>wi_itemId = ''a1'', wi_name = ''IPA Pint'', wi_quantity = 2, wi_price = 7\<rparr>],
      wp_subtotal = binary64 14, wp_tax = binary64 1.16, wp_total = binary64 15.16\<rparr>"

definition endpoint_down :: "nat \<Rightarrow> fetch_result" where
  "endpoint_down k = HttpResponse 500"

definition endpoint_up_at :: "nat \<Rightarrow> nat \<Rightarrow> fetch_result" where
  "endpoint_up_at n k = (if k = n then HttpResponse 200 else FetchFailed ''ECONNREFUSED'')"

definition example_order :: CreateOrderRequest where
  "example_order = \<lparr>cor_items = Some [\<lparr>itemId = ''a1'', qty = 2\<rparr>]\<rparr>"

definition example_totals :: OrderTotals where
  "example_totals =
     \<lparr>ot_items = [\<lparr>oi_itemId = ''a1'', oi_name = ''IPA Pint'', oi_price = 7, oi_quantity = 2,
                   oi_subtotal = binary64 14\<rparr>],
      ot_subtotal = binary64 14, ot_tax = binary64 1.16, ot_total = binary64 15.16\<rparr>"

section \<open>Properties of the order totals\<close>



lemma order_of_items: "o_items (order_of newId now r) = ot_items r"
proof -
  have "map (\<lambda>item. \<lparr>oi_itemId = oi_itemId item, oi_name = oi_name item,
                      oi_price = oi_price item, oi_quantity = oi_quantity item,
                      oi_subtotal = oi_subtotal item\<rparr>) xs = xs" for xs :: "OrderItem list"
    by (induction xs) simp_all
  then show ?thesis by (simp add: order_of_def)
qed

lemma createOrder_found:
  assumes "lines \<noteq> []" and "calculateOrderTotals lines (catalog s) = Inr r"
  shows "res_body (createOrder cfg newId now s \<lparr>cor_items = Some lines\<rparr>) =
           OrderBody (order_of newId now r)"
    and "res_status (createOrder cfg newId now s \<lparr>cor_items = Some lines\<rparr>) = 201"
    and "orders (new_state (createOrder cfg newId now s \<lparr>cor_items = Some lines\<rparr>)) =
           (orders s)(newId \<mapsto> order_of newId now r)"
    and "map data (broadcasts (createOrder cfg newId now s \<lparr>cor_items = Some lines\<rparr>)) =
           [OrderData (order_of newId now r)]"
  using assms by (simp_all add: createOrder_def Let_def order_of_def)


text \<open>
  The arithmetic at work: 0.1 times 3 is 0.30000000000000004, which is not the double of
  0.3; and 1.005 is rounded to 1, its product with 100 being 100.49999999999999.
\<close>

lemma binary64_examples:
  "js_mul (binary64 0.1) (binary64 3) = Fin (1351079888211149 / 4503599627370496)"
  "binary64 0.3 = Fin (5404319552844595 / 18014398509481984)"
  "js_mul (binary64 1.005) (Fin 100) = Fin (7072058789855231 / 70368744177664)"
  "round2 (binary64 1.005) = binary64 1"
  by code_simp+



text \<open>
  C2 asks that the per-line subtotal returned (and stored in the created order, and
  broadcast) be rounded to two decimals. It is not: the line carries the raw product, while
  the three aggregates of the same result go through \<^verbatim>\<open>Math.round(x * 100) / 100\<close>. After
  the first seed item is repriced to 8.1, an order of three of them is answered with the
  line subtotal 24.299999999999997, the double \<open>1709960483517235 / 2 ^ 46\<close>, beside the
  order subtotal 24.3, which is what rounding that line subtotal gives.
\<close>

theorem line_subtotal_not_rounded:
  "res_body (createOrder dev_config ''o1'' 9 repriced_store
      \<lparr>cor_items = Some [\<lparr>itemId = ''a1'', qty = 3\<rparr>]\<rparr>) =
     OrderBody
       \<lparr>o_id = ''o1'',
        o_items = [\<lparr>oi_itemId = ''a1'', oi_name = ''IPA Pint'', oi_price = 8.1, oi_quantity = 3,
                    oi_subtotal = Fin (1709960483517235 / 70368744177664)\<rparr>],
        o_subtotal = binary64 24.3, o_tax = binary64 2, o_total = binary64 26.3,
        o_status = completed, o_createdAt = 9\<rparr>
   \<and> Fin (1709960483517235 / 70368744177664) \<noteq> binary64 24.3
   \<and> round2 (Fin (1709960483517235 / 70368744177664)) = binary64 24.3"
proof -
  have c: "calculateOrderTotals [\<lparr>itemId = ''a1'', qty = 3\<rparr>] (catalog repriced_store) =
     Inr \<lparr>ot_items = [\<lparr>oi_itemId = ''a1'', oi_name = ''IPA Pint'', oi_price = 8.1,
                        oi_quantity = 3,
                        oi_subtotal = Fin (1709960483517235 / 70368744177664)\<rparr>],
          ot_subtotal = binary64 24.3, ot_tax = binary64 2, ot_total = binary64 26.3\<rparr>"
    by code_simp
  have n: "Fin (1709960483517235 / 70368744177664) \<noteq> binary64 24.3"
    by code_simp
  have r: "round2 (Fin (1709960483517235 / 70368744177664)) = binary64 24.3"
    by code_simp
  have "res_body (createOrder dev_config ''o1'' 9 repriced_store
      \<lparr>cor_items = Some [\<lparr>itemId = ''a1'', qty = 3\<rparr>]\<rparr>) =
     OrderBody
       \<lparr>o_id = ''o1'',
        o_items = [\<lparr>oi_itemId = ''a1'', oi_name = ''IPA Pint'', oi_price = 8.1, oi_quantity = 3,
                    oi_subtotal = Fin (1709960483517235 / 70368744177664)\<rparr>],
        o_subtotal = binary64 24.3, o_tax = binary64 2, o_total = binary64 26.3,
        o_status = completed, o_createdAt = 9\<rparr>"
    unfolding createOrder_found(1)[OF _ c, of dev_config "''o1''" 9, simplified]
    by (simp add: order_of_def)
  then show ?thesis using n r by blast
qed


section \<open>Orders naming a missing item\<close>

text \<open>The loop throws at the first line whose item is absent, whatever it has accumulated.\<close>

lemma totals_loop_missing:
  "find (\<lambda>l. cat (itemId l) = None) lines = Some m \<Longrightarrow>
   totals_loop cat lines st tt acc = Inl (Error (''Item '' @ itemId m @ '' not found''))"
  by (induction lines arbitrary: st tt acc) (auto simp add: Let_def split: if_splits)

lemma find_missing:
  "l \<in> set lines \<Longrightarrow> cat (itemId l) = None \<Longrightarrow>
   \<exists>m. find (\<lambda>l. cat (itemId l) = None) lines = Some m \<and> m \<in> set lines \<and> cat (itemId m) = None"
  by (induction lines) auto

text \<open>
  C5. If a requested order line names an item absent from the catalog,
  \<^verbatim>\<open>calculateOrderTotals\<close> fails with an error naming a missing id (that of the first
  such line) and returns no totals, and \<^verbatim>\<open>POST /orders\<close> answers 400 with that message
  and leaves the state as it was: no order is inserted, nothing is broadcast and no webhook
  delivery is started.
\<close>

theorem missing_item_aborts_order:
  assumes "l \<in> set lines" and "catalog s (itemId l) = None"
  shows "\<exists>m. m \<in> set lines \<and> catalog s (itemId m) = None
           \<and> find (\<lambda>l. catalog s (itemId l) = None) lines = Some m
           \<and> calculateOrderTotals lines (catalog s) =
               Inl (Error (''Item '' @ itemId m @ '' not found''))
           \<and> createOrder cfg newId now s \<lparr>cor_items = Some lines\<rparr> =
               \<lparr>new_state = s, res_status = 400,
                res_body = ErrorBody (Some (''Item '' @ itemId m @ '' not found'')),
                broadcasts = [], webhooks = []\<rparr>
           \<and> postOrder_with_delivery hmac stringify env cfg newId now s \<lparr>cor_items = Some lines\<rparr> =
               (createOrder cfg newId now s \<lparr>cor_items = Some lines\<rparr>, [])"
proof -
  from find_missing[of l lines "catalog s", OF assms] obtain m where
    m: "find (\<lambda>l. catalog s (itemId l) = None) lines = Some m"
    and "m \<in> set lines" and "catalog s (itemId m) = None"
    by blast
  moreover have c: "calculateOrderTotals lines (catalog s) =
      Inl (Error (''Item '' @ itemId m @ '' not found''))"
    by (simp add: calculateOrderTotals_def totals_loop_missing[OF m])
  moreover have "lines \<noteq> []" using assms(1) by auto
  then have r: "createOrder cfg newId now s \<lparr>cor_items = Some lines\<rparr> =
               \<lparr>new_state = s, res_status = 400,
                res_body = ErrorBody (Some (''Item '' @ itemId m @ '' not found'')),
                broadcasts = [], webhooks = []\<rparr>"
    by (simp add: createOrder_def c respond_def)
  moreover have "postOrder_with_delivery hmac stringify env cfg newId now s \<lparr>cor_items = Some lines\<rparr> =
               (createOrder cfg newId now s \<lparr>cor_items = Some lines\<rparr>, [])"
    by (simp add: postOrder_with_delivery_def r)
  ultimately show ?thesis by blast
qed

theorem missing_item_aborts_order_witness:
  "\<lparr>itemId = ''zz'', qty = 1\<rparr> \<in> set [\<lparr>itemId = ''a1'', qty = 2\<rparr>, \<lparr>itemId = ''zz'', qty = 1\<rparr>]
   \<and> catalog seed_store ''zz'' = None
   \<and> calculateOrderTotals [\<lparr>itemId = ''a1'', qty = 2\<rparr>, \<lparr>itemId = ''zz'', qty = 1\<rparr>]
        (catalog seed_store) = Inl (Error ''Item zz not found'')
   \<and> new_state (createOrder dev_config ''o1'' 0 seed_store
        \<lparr>cor_items = Some [\<lparr>itemId = ''a1'', qty = 2\<rparr>, \<lparr>itemId = ''zz'', qty = 1\<rparr>]\<rparr>) = seed_store"
  using missing_item_aborts_order[of "\<lparr>itemId = ''zz'', qty = 1\<rparr>"
      "[\<lparr>itemId = ''a1'', qty = 2\<rparr>, \<lparr>itemId = ''zz'', qty = 1\<rparr>]" seed_store
      dev_config "''o1''" 0 example_hmac "\<lambda>p. ''{}''" "\<lambda>k. HttpResponse 500"]
  by (auto simp add: seed_store_def)

section \<open>Properties of the signatures\<close>

text \<open>
  C3 asks that \<^verbatim>\<open>verifyHmacSignature\<close> return false, and never throw, when the signature
  provided differs in length from the expected digest. It does not: the two buffers go to
  \<^verbatim>\<open>crypto.timingSafeEqual\<close> with no check of their lengths before, and the call throws
  a \<^verbatim>\<open>RangeError\<close> for every such signature.
\<close>

theorem verifyHmacSignature_length_mismatch_throws:
  assumes "length signature \<noteq> length (generateHmacSignature hmac payload secret)"
  shows "verifyHmacSignature hmac payload signature secret = Inl RangeError"
  using assms by (simp add: verifyHmacSignature_def timingSafeEqual_def Buffer_from_def)

theorem verifyHmacSignature_length_mismatch_throws_witness:
  "length ''abc'' \<noteq> length (generateHmacSignature example_hmac ''{}'' ''supersecret'')
   \<and> verifyHmacSignature example_hmac ''{}'' ''abc'' ''supersecret'' = Inl RangeError"
proof -
  have h: "length ''abc'' \<noteq> length (generateHmacSignature example_hmac ''{}'' ''supersecret'')"
    by (simp add: generateHmacSignature_def example_hmac_def)
  show ?thesis
    using h verifyHmacSignature_length_mismatch_throws[OF h] by simp
qed

text \<open>
  C7. For every payload and every secret, verifying the signature that
  \<^verbatim>\<open>generateHmacSignature\<close> makes of the payload, with the same secret, returns true.
\<close>

theorem sign_then_verify:
  "verifyHmacSignature hmac payload (generateHmacSignature hmac payload secret) secret = Inr True"
  by (simp add: verifyHmacSignature_def timingSafeEqual_def)

section \<open>Properties of the price guardrails\<close>

text \<open>
  C6. For every item and price \<open>p\<close>, \<^verbatim>\<open>validatePrice(item, p, false)\<close> is valid exactly
  when \<open>p\<close> lies between the item's minimum and maximum prices, both included;
  \<^verbatim>\<open>validatePrice(item, p, true)\<close> is always valid; and an invalid result carries a message
  that names the bound violated, minimum or maximum, with the price and the bound's value.
\<close>

theorem validatePrice_guardrails:
  "(valid (validatePrice shw item p False) \<longleftrightarrow> minPrice item \<le> p \<and> p \<le> maxPrice item)
   \<and> valid (validatePrice shw item p True)
   \<and> (\<not> valid (validatePrice shw item p ov) \<longrightarrow>
         (p < minPrice item
          \<and> message (validatePrice shw item p ov) =
              Some (''Price $'' @ shw p @ '' is below minimum $'' @ shw (minPrice item)))
       \<or> (maxPrice item < p
          \<and> message (validatePrice shw item p ov) =
              Some (''Price $'' @ shw p @ '' is above maximum $'' @ shw (maxPrice item))))"
  by (auto simp add: validatePrice_def)

theorem validatePrice_guardrails_witness:
  "valid (validatePrice show_whole ipa (17 / 2) False)
   \<and> valid (validatePrice show_whole ipa 5 False)
   \<and> valid (validatePrice show_whole ipa 12 False)
   \<and> \<not> valid (validatePrice show_whole ipa 3 False)
   \<and> message (validatePrice show_whole ipa 3 False) = Some ''Price $3 is below minimum $5''
   \<and> valid (validatePrice show_whole ipa 3 True)"
proof -
  have sw: "show_whole 3 = ''3''" "show_whole 5 = ''5''" "show_whole 12 = ''12''"
    by code_simp+
  have b: "minPrice ipa = 5" "maxPrice ipa = 12" by (simp_all add: ipa_def)
  have n: "\<not> valid (validatePrice show_whole ipa 3 False)"
    using validatePrice_guardrails[of show_whole ipa 3 False] by (simp add: b)
  show ?thesis
    using validatePrice_guardrails[of show_whole ipa "17 / 2" False]
      validatePrice_guardrails[of show_whole ipa 5 False]
      validatePrice_guardrails[of show_whole ipa 12 False]
      validatePrice_guardrails[of show_whole ipa 3 False]
      validatePrice_guardrails[of show_whole ipa 3 True] n
    by (simp add: b sw)
qed

section \<open>Properties of the stores\<close>

text \<open>What each route does to \<^verbatim>\<open>menuVersion\<close>.\<close>

lemma respond_simps:
  "new_state (respond s st b) = s" "res_status (respond s st b) = st"
  "res_body (respond s st b) = b" "broadcasts (respond s st b) = []"
  "webhooks (respond s st b) = []"
  by (simp_all add: respond_def)

lemma createItem_menuVersion:
  "menuVersion (new_state (createItem newId now s body)) = menuVersion s
   \<or> menuVersion (new_state (createItem newId now s body)) = menuVersion s + 1"
  by (simp add: createItem_def respond_simps Let_def split: option.split)

lemma updateItem_menuVersion:
  "menuVersion (new_state (updateItem now s ident body)) = menuVersion s
   \<or> menuVersion (new_state (updateItem now s ident body)) = menuVersion s + 1"
  by (simp add: updateItem_def respond_simps Let_def split: option.split)

lemma deleteItem_menuVersion:
  "menuVersion (new_state (deleteItem now s ident)) = menuVersion s
   \<or> menuVersion (new_state (deleteItem now s ident)) = menuVersion s + 1"
  by (simp add: deleteItem_def respond_simps Let_def split: option.split)

lemma updatePrice_menuVersion:
  "menuVersion (new_state (updatePrice shw now s ident body)) = menuVersion s
   \<or> menuVersion (new_state (updatePrice shw now s ident body)) = menuVersion s + 1"
  by (simp add: updatePrice_def respond_simps Let_def split: option.split)

lemma createPromotion_menuVersion:
  "menuVersion (new_state (createPromotion parseDate newId now s body)) = menuVersion s"
  by (simp add: createPromotion_def respond_simps Let_def split: option.split)

lemma publishMenu_menuVersion:
  "menuVersion (new_state (publishMenu now s)) = menuVersion s + 1"
  by (simp add: publishMenu_def Let_def)

lemma createOrder_menuVersion:
  "menuVersion (new_state (createOrder cfg newId now s body)) = menuVersion s"
  by (simp add: createOrder_def respond_simps Let_def split: option.split sum.split)

lemma guarded_menuVersion:
  assumes "menuVersion (new_state r) = menuVersion s \<or> menuVersion (new_state r) = menuVersion s + 1"
  shows "menuVersion (new_state (guarded cfg k s r)) = menuVersion s
         \<or> menuVersion (new_state (guarded cfg k s r)) = menuVersion s + 1"
  using assms by (simp add: guarded_def unauthorized_def respond_simps)

lemma handle_menuVersion:
  "menuVersion (new_state (handle cfg shw parseDate newId now s req)) = menuVersion s
   \<or> menuVersion (new_state (handle cfg shw parseDate newId now s req)) = menuVersion s + 1"
proof (cases req)
  case (PostCatalogItem k body)
  then show ?thesis using guarded_menuVersion[OF createItem_menuVersion] by simp
next
  case (PatchCatalogItem k ident body)
  then show ?thesis using guarded_menuVersion[OF updateItem_menuVersion] by simp
next
  case (DeleteCatalogItem k ident)
  then show ?thesis using guarded_menuVersion[OF deleteItem_menuVersion] by simp
next
  case (PostPricing k ident body)
  then show ?thesis using guarded_menuVersion[OF updatePrice_menuVersion] by simp
next
  case (PostPromotion k body)
  then show ?thesis
    using guarded_menuVersion[of "createPromotion parseDate newId now s body" s cfg k]
    by (simp add: createPromotion_menuVersion)
next
  case (PostMenuPublish k)
  then show ?thesis
    using guarded_menuVersion[of "publishMenu now s" s cfg k]
    by (simp add: publishMenu_menuVersion)
next
  case (PostOrder body)
  then show ?thesis by (simp add: createOrder_menuVersion)
qed

lemma run_menuVersion:
  "menuVersion s \<le> menuVersion (run cfg shw parseDate s rs)
   \<and> menuVersion (run cfg shw parseDate s rs) \<le> menuVersion s + int (length rs)"
proof (induction rs arbitrary: s)
  case Nil
  then show ?case by simp
next
  case (Cons r rs)
  obtain newId now req where r: "r = (newId, now, req)" by (cases r) auto
  from handle_menuVersion[of cfg shw parseDate newId now s req]
    Cons.IH[of "new_state (handle cfg shw parseDate newId now s req)"]
  show ?case unfolding r by auto
qed

text \<open>
  C8. \<^verbatim>\<open>menuVersion\<close> never decreases: every operation (creating, updating or deleting a
  catalog item, a price update, a menu publish, the creation of a promotion or of an order)
  leaves it unchanged or increments it by exactly one, and over any run of operations it is
  at least what it was.
\<close>

theorem menuVersion_never_decreases:
  "(menuVersion (new_state (handle cfg shw parseDate newId now s req)) = menuVersion s
    \<or> menuVersion (new_state (handle cfg shw parseDate newId now s req)) = menuVersion s + 1)
   \<and> menuVersion s \<le> menuVersion (run cfg shw parseDate s rs)"
  using handle_menuVersion run_menuVersion by blast

text \<open>A price update answered with 200 found the item, had a price, and passed the guardrails.\<close>

lemma updatePrice_success:
  assumes "res_status (updatePrice shw now s ident body) = 200"
  shows "\<exists>item p. catalog s ident = Some item \<and> pur_price body = Some p
           \<and> valid (validatePrice shw item p (truthy (pur_overrideGuardrails body)))
           \<and> new_state (updatePrice shw now s ident body) =
               s\<lparr>catalog := (catalog s)(ident \<mapsto> item\<lparr>price := p, updatedAt := now\<rparr>),
                 menuVersion := (if truthy (pur_publish body)
                                 then menuVersion s + 1 else menuVersion s)\<rparr>"
  using assms
  by (auto simp add: updatePrice_def respond_simps Let_def split: option.splits if_splits)

text \<open>
  C9. A successful price update changes only the price and \<^verbatim>\<open>updatedAt\<close> of the item it
  names: every other item, the orders and the promotions are unchanged, and so is
  \<^verbatim>\<open>menuVersion\<close> when the publish flag is absent or false; with the publish flag true,
  \<^verbatim>\<open>menuVersion\<close> is incremented by exactly one.
\<close>

theorem price_update_frame:
  assumes "res_status (handle cfg shw parseDate newId now s (PostPricing k ident body)) = 200"
  shows "\<exists>item p. catalog s ident = Some item \<and> pur_price body = Some p
           \<and> catalog (new_state (handle cfg shw parseDate newId now s (PostPricing k ident body))) =
               (catalog s)(ident \<mapsto> item\<lparr>price := p, updatedAt := now\<rparr>)
           \<and> (\<forall>i. i \<noteq> ident \<longrightarrow>
                 catalog (new_state (handle cfg shw parseDate newId now s (PostPricing k ident body))) i =
                 catalog s i)
           \<and> orders (new_state (handle cfg shw parseDate newId now s (PostPricing k ident body))) =
               orders s
           \<and> promotions (new_state (handle cfg shw parseDate newId now s (PostPricing k ident body))) =
               promotions s
           \<and> menuVersion (new_state (handle cfg shw parseDate newId now s (PostPricing k ident body))) =
               (if pur_publish body = Some True then menuVersion s + 1 else menuVersion s)"
proof -
  have auth: "requireApiKey cfg k"
    using assms by (auto simp add: guarded_def unauthorized_def respond_simps split: if_splits)
  then have h: "handle cfg shw parseDate newId now s (PostPricing k ident body) =
      updatePrice shw now s ident body"
    by (simp add: guarded_def)
  from assms h have "res_status (updatePrice shw now s ident body) = 200" by simp
  from updatePrice_success[OF this] obtain item p where
    "catalog s ident = Some item" "pur_price body = Some p"
    and n: "new_state (updatePrice shw now s ident body) =
               s\<lparr>catalog := (catalog s)(ident \<mapsto> item\<lparr>price := p, updatedAt := now\<rparr>),
                 menuVersion := (if truthy (pur_publish body)
                                 then menuVersion s + 1 else menuVersion s)\<rparr>"
    by blast
  moreover have "truthy (pur_publish body) \<longleftrightarrow> pur_publish body = Some True"
    by (simp add: truthy_def split: option.split)
  ultimately show ?thesis
    unfolding h n by (intro exI[of _ item] exI[of _ p]) simp
qed

theorem price_update_frame_witness:
  "res_status (handle dev_config show_whole (\<lambda>d. 0) ''n1'' 5 seed_store
      (example_price_update None)) = 200
   \<and> catalog (new_state (handle dev_config show_whole (\<lambda>d. 0) ''n1'' 5 seed_store
      (example_price_update None))) ''a1'' = Some (ipa\<lparr>price := 8, updatedAt := 5\<rparr>)
   \<and> catalog (new_state (handle dev_config show_whole (\<lambda>d. 0) ''n1'' 5 seed_store
      (example_price_update None))) ''c3'' = Some margarita
   \<and> menuVersion (new_state (handle dev_config show_whole (\<lambda>d. 0) ''n1'' 5 seed_store
      (example_price_update None))) = 1
   \<and> res_status (handle dev_config show_whole (\<lambda>d. 0) ''n1'' 5 seed_store
      (example_price_update (Some True))) = 200
   \<and> menuVersion (new_state (handle dev_config show_whole (\<lambda>d. 0) ''n1'' 5 seed_store
      (example_price_update (Some True)))) = 2"
proof -
  have a: "requireApiKey dev_config (Some ''pos-sim-dev-key'')"
    by (simp add: requireApiKey_def dev_config_def)
  have v: "valid (validatePrice show_whole ipa 8 False)"
    by (simp add: validatePrice_def ipa_def)
  have s1: "res_status (handle dev_config show_whole (\<lambda>d. 0) ''n1'' 5 seed_store
      (PostPricing (Some ''pos-sim-dev-key'') ''a1''
         \<lparr>pur_price = Some 8, pur_publish = pb, pur_overrideGuardrails = None\<rparr>)) = 200" for pb
    by (simp add: guarded_def a updatePrice_def seed_store_def truthy_def v Let_def)
  have c: "catalog seed_store ''a1'' = Some ipa" "catalog seed_store ''c3'' = Some margarita"
    "menuVersion seed_store = 1"
    by (simp_all add: seed_store_def)
  from price_update_frame[OF s1[of None]] c
  have n: "catalog (new_state (handle dev_config show_whole (\<lambda>d. 0) ''n1'' 5 seed_store
      (example_price_update None))) ''a1'' = Some (ipa\<lparr>price := 8, updatedAt := 5\<rparr>)"
    "catalog (new_state (handle dev_config show_whole (\<lambda>d. 0) ''n1'' 5 seed_store
      (example_price_update None))) ''c3'' = Some margarita"
    "menuVersion (new_state (handle dev_config show_whole (\<lambda>d. 0) ''n1'' 5 seed_store
      (example_price_update None))) = 1"
    unfolding example_price_update_def by auto
  from price_update_frame[OF s1[of "Some True"]] c
  have p: "menuVersion (new_state (handle dev_config show_whole (\<lambda>d. 0) ''n1'' 5 seed_store
      (example_price_update (Some True)))) = 2"
    unfolding example_price_update_def by auto
  show ?thesis
    using n p s1 by (simp add: example_price_update_def)
qed

text \<open>
  C10. A request to create a catalog item whose tax rate is given as 0 stores the item with
  the tax rate 0.0825, as a request without a tax rate does: the default replaces every
  falsy value, so no created item has a zero tax rate. A non-zero tax rate is stored as given.
\<close>

theorem createItem_zero_taxRate_defaults:
  assumes "cir_name body = Some nm" and "nm \<noteq> []"
    and "cir_category body = Some ct" and "ct \<noteq> []"
    and "cir_price body = Some pr" and "cir_minPrice body = Some mn"
    and "cir_maxPrice body = Some mx"
  shows "\<exists>item. res_status (createItem newId now s body) = 201
           \<and> res_body (createItem newId now s body) = ItemBody item
           \<and> catalog (new_state (createItem newId now s body)) newId = Some item
           \<and> taxRate item \<noteq> 0
           \<and> (cir_taxRate body = Some 0 \<longrightarrow> taxRate item = 0.0825)
           \<and> (cir_taxRate body = None \<longrightarrow> taxRate item = 0.0825)
           \<and> (\<forall>t. cir_taxRate body = Some t \<longrightarrow> t \<noteq> 0 \<longrightarrow> taxRate item = t)"
  using assms by (auto simp add: createItem_def Let_def number_or_def split: option.splits)

theorem createItem_zero_taxRate_defaults_witness:
  "\<exists>item. res_status (createItem ''n1'' 5 seed_store example_create_item) = 201
      \<and> catalog (new_state (createItem ''n1'' 5 seed_store example_create_item)) ''n1'' = Some item
      \<and> cir_taxRate example_create_item = Some 0
      \<and> taxRate item = 0.0825"
  using createItem_zero_taxRate_defaults[of example_create_item "''Water''" "''Soft''" 1 0 2
      "''n1''" 5 seed_store]
  by (auto simp add: example_create_item_def)

section \<open>Properties of the webhook delivery\<close>

text \<open>
  A turn of the loop returns on a successful send, goes round again on a failed one while
  retries remain, and throws the failure of the last one.
\<close>

lemma attempt_ok: "fetch_ok x \<Longrightarrow> attempt x r m = Returned"
  by (auto simp add: attempt_def try_block_def fetch_ok_def split: fetch_result.splits)

lemma attempt_retry: "\<not> fetch_ok x \<Longrightarrow> int r < m \<Longrightarrow> attempt x r m = Retrying"
  by (auto simp add: attempt_def try_block_def catch_block_def fetch_ok_def
      split: fetch_result.splits)

lemma attempt_exhausted:
  "\<not> fetch_ok x \<Longrightarrow> \<not> int r < m \<Longrightarrow> attempt x r m = Thrown (failure_of x)"
  by (auto simp add: attempt_def try_block_def catch_block_def fetch_ok_def failure_of_def
      split: fetch_result.splits)

lemma backoff_0: "backoff post d 0 = []"
  by (simp add: backoff_def)

lemma backoff_Suc: "backoff post d (Suc k) = post # Sleep d # backoff post (d * 2) k"
proof -
  have "[0..<Suc k] = 0 # map Suc [0..<k]"
    by (simp add: upt_conv_Cons map_Suc_upt del: upt_Suc)
  then show ?thesis
    by (simp add: backoff_def comp_def mult.assoc del: upt_Suc)
qed

lemma loop_all_fail:
  "int r \<le> m \<Longrightarrow> (\<forall>k. r \<le> k \<and> int k \<le> m \<longrightarrow> \<not> fetch_ok (env k)) \<Longrightarrow>
   sendWebhook_loop env post m r d =
     (backoff post d (nat m - r) @ [post], Rejected (failure_of (env (nat m))))"
proof (induction env post m r d rule: sendWebhook_loop.induct)
  case (1 env post m r d)
  have nf: "\<not> fetch_ok (env r)" using "1.prems" by auto
  show ?case
  proof (cases "int r < m")
    case True
    then have a: "attempt (env r) r m = Retrying" using nf by (rule attempt_retry[rotated])
    have "sendWebhook_loop env post m (Suc r) (d * 2) =
        (backoff post (d * 2) (nat m - Suc r) @ [post], Rejected (failure_of (env (nat m))))"
      using "1.IH"[OF "1.prems"(1) a] True "1.prems"(2) by auto
    moreover have "nat m - r = Suc (nat m - Suc r)" using True by linarith
    ultimately show ?thesis
      using "1.prems"(1) a
      by (subst sendWebhook_loop.simps) (simp add: backoff_Suc)
  next
    case False
    then have a: "attempt (env r) r m = Thrown (failure_of (env r))"
      using nf by (rule attempt_exhausted[rotated])
    have "nat m = r" using False "1.prems"(1) by linarith
    then show ?thesis
      using "1.prems"(1) a
      by (subst sendWebhook_loop.simps) (simp add: backoff_0)
  qed
qed

lemma loop_first_success:
  "r \<le> k \<Longrightarrow> int k \<le> m \<Longrightarrow> fetch_ok (env k) \<Longrightarrow>
   (\<forall>j. r \<le> j \<and> j < k \<longrightarrow> \<not> fetch_ok (env j)) \<Longrightarrow>
   sendWebhook_loop env post m r d = (backoff post d (k - r) @ [post], Resolved)"
proof (induction env post m r d rule: sendWebhook_loop.induct)
  case (1 env post m r d)
  have le: "int r \<le> m" using "1.prems"(1,2) by linarith
  show ?case
  proof (cases "r = k")
    case True
    then have "attempt (env r) r m = Returned" using "1.prems"(3) by (simp add: attempt_ok)
    then show ?thesis
      using le True by (subst sendWebhook_loop.simps) (simp add: backoff_0)
  next
    case False
    then have lt: "r < k" using "1.prems"(1) by simp
    then have "\<not> fetch_ok (env r)" using "1.prems"(4) by auto
    moreover have "int r < m" using lt "1.prems"(2) by linarith
    ultimately have a: "attempt (env r) r m = Retrying" by (rule attempt_retry)
    have "sendWebhook_loop env post m (Suc r) (d * 2) =
        (backoff post (d * 2) (k - Suc r) @ [post], Resolved)"
      using "1.IH"[OF le a] lt "1.prems"(2,3,4) by auto
    moreover have "k - r = Suc (k - Suc r)" using lt by linarith
    ultimately show ?thesis
      using le a by (subst sendWebhook_loop.simps) (simp add: backoff_Suc)
  qed
qed

lemma backoff_1000:
  "backoff post 1000 3 = [post, Sleep 1000, post, Sleep 2000, post, Sleep 4000]"
  by (simp add: eval_nat_numeral backoff_Suc backoff_0)

lemma sendWebhook_all_fail:
  assumes "\<forall>k\<le>3. \<not> fetch_ok (env k)"
  shows "sendWebhook hmac stringify env url payload secret 3 =
           ([delivery_post hmac stringify url payload secret, Sleep 1000,
             delivery_post hmac stringify url payload secret, Sleep 2000,
             delivery_post hmac stringify url payload secret, Sleep 4000,
             delivery_post hmac stringify url payload secret],
            Rejected (failure_of (env 3)))"
proof -
  have "\<forall>k. 0 \<le> k \<and> int k \<le> 3 \<longrightarrow> \<not> fetch_ok (env k)" using assms by auto
  from loop_all_fail[OF _ this, of "delivery_post hmac stringify url payload secret" 1000]
  have "sendWebhook_loop env (delivery_post hmac stringify url payload secret) 3 0 1000 =
      (backoff (delivery_post hmac stringify url payload secret) 1000 3 @
         [delivery_post hmac stringify url payload secret], Rejected (failure_of (env 3)))"
    by simp
  then show ?thesis
    unfolding backoff_1000 by (simp add: sendWebhook_def delivery_post_def Let_def)
qed

lemma sendWebhook_first_success:
  assumes "k \<le> 3" and "fetch_ok (env k)" and "\<forall>j<k. \<not> fetch_ok (env j)"
  shows "sendWebhook hmac stringify env url payload secret 3 =
           (backoff (delivery_post hmac stringify url payload secret) 1000 k @
              [delivery_post hmac stringify url payload secret], Resolved)"
proof -
  have "\<forall>j. 0 \<le> j \<and> j < k \<longrightarrow> \<not> fetch_ok (env j)" using assms(3) by auto
  from loop_first_success[OF _ _ assms(2) this, of 3
      "delivery_post hmac stringify url payload secret" 1000] assms(1)
  have "sendWebhook_loop env (delivery_post hmac stringify url payload secret) 3 0 1000 =
      (backoff (delivery_post hmac stringify url payload secret) 1000 k @
         [delivery_post hmac stringify url payload secret], Resolved)"
    by simp
  then show ?thesis
    by (simp add: sendWebhook_def delivery_post_def Let_def)
qed

lemma posts_backoff: "length (filter is_post (backoff (Post u sg b) d k)) = k"
  by (induction k arbitrary: d) (simp_all add: backoff_0 backoff_Suc is_post_def)

text \<open>
  C4. When every send fails (a response that is not 2xx, or a transport error),
  \<^verbatim>\<open>sendWebhook\<close> with the default of 3 retries makes exactly 4 sends of the signed
  payload, waits 1000 ms, 2000 ms and 4000 ms between them, and rejects with the last
  failure; the order creation that started the delivery has answered 201 with the order, and
  the rejection is caught and logged. When the send numbered \<open>n\<close> (from 0, at most 3) is the
  first to succeed, the delivery resolves right after it: \<open>n + 1\<close> sends, none after the
  successful one.
\<close>

theorem sendWebhook_retry_schedule:
  "((\<forall>k\<le>3. \<not> fetch_ok (env k)) \<longrightarrow>
      sendWebhook hmac stringify env url payload secret 3 =
        ([delivery_post hmac stringify url payload secret, Sleep 1000,
          delivery_post hmac stringify url payload secret, Sleep 2000,
          delivery_post hmac stringify url payload secret, Sleep 4000,
          delivery_post hmac stringify url payload secret],
         Rejected (failure_of (env 3))))
   \<and> ((\<forall>k\<le>3. \<not> fetch_ok (env k)) \<and> lines \<noteq> []
        \<and> calculateOrderTotals lines (catalog s) = Inr r \<and> MARKETBAR_WEBHOOK_URL cfg \<noteq> [] \<longrightarrow>
      (\<exists>tr. postOrder_with_delivery hmac stringify env cfg newId now s \<lparr>cor_items = Some lines\<rparr> =
              (createOrder cfg newId now s \<lparr>cor_items = Some lines\<rparr>, [(tr, [failure_of (env 3)])])
           \<and> length (filter is_post tr) = 4
           \<and> res_status (createOrder cfg newId now s \<lparr>cor_items = Some lines\<rparr>) = 201
           \<and> res_body (createOrder cfg newId now s \<lparr>cor_items = Some lines\<rparr>) =
               OrderBody (order_of newId now r)))
   \<and> (n \<le> 3 \<and> fetch_ok (env n) \<and> (\<forall>j<n. \<not> fetch_ok (env j)) \<longrightarrow>
      sendWebhook hmac stringify env url payload secret 3 =
        (backoff (delivery_post hmac stringify url payload secret) 1000 n @
           [delivery_post hmac stringify url payload secret], Resolved)
      \<and> length (filter is_post (fst (sendWebhook hmac stringify env url payload secret 3))) = n + 1)"
proof (intro conjI impI)
  assume "\<forall>k\<le>3. \<not> fetch_ok (env k)"
  then show "sendWebhook hmac stringify env url payload secret 3 =
        ([delivery_post hmac stringify url payload secret, Sleep 1000,
          delivery_post hmac stringify url payload secret, Sleep 2000,
          delivery_post hmac stringify url payload secret, Sleep 4000,
          delivery_post hmac stringify url payload secret],
         Rejected (failure_of (env 3)))"
    by (rule sendWebhook_all_fail)
next
  assume h: "(\<forall>k\<le>3. \<not> fetch_ok (env k)) \<and> lines \<noteq> []
        \<and> calculateOrderTotals lines (catalog s) = Inr r \<and> MARKETBAR_WEBHOOK_URL cfg \<noteq> []"
  let ?rep = "createOrder cfg newId now s \<lparr>cor_items = Some lines\<rparr>"
  let ?call = "\<lparr>wc_url = MARKETBAR_WEBHOOK_URL cfg,
                wc_payload = webhookPayload_of (order_of newId now r) now,
                wc_secret = WEBHOOK_SECRET cfg\<rparr>"
  let ?p = "delivery_post hmac stringify (wc_url ?call) (wc_payload ?call) (wc_secret ?call)"
  have w: "webhooks ?rep = [?call]"
    using h by (simp add: createOrder_def Let_def)
  have "run_webhook hmac stringify env ?call =
      ([?p, Sleep 1000, ?p, Sleep 2000, ?p, Sleep 4000, ?p], [failure_of (env 3)])"
    using h by (simp add: run_webhook_def sendWebhook_all_fail)
  then have "postOrder_with_delivery hmac stringify env cfg newId now s \<lparr>cor_items = Some lines\<rparr> =
      (?rep, [([?p, Sleep 1000, ?p, Sleep 2000, ?p, Sleep 4000, ?p], [failure_of (env 3)])])"
    by (simp add: postOrder_with_delivery_def Let_def w)
  moreover have "length (filter is_post [?p, Sleep 1000, ?p, Sleep 2000, ?p, Sleep 4000, ?p]) = 4"
    by (simp add: is_post_def delivery_post_def)
  moreover have "res_status ?rep = 201" "res_body ?rep = OrderBody (order_of newId now r)"
    using h createOrder_found(1,2)[of lines s r cfg newId now] by simp_all
  ultimately show "\<exists>tr. postOrder_with_delivery hmac stringify env cfg newId now s \<lparr>cor_items = Some lines\<rparr> =
              (?rep, [(tr, [failure_of (env 3)])])
           \<and> length (filter is_post tr) = 4
           \<and> res_status ?rep = 201
           \<and> res_body ?rep = OrderBody (order_of newId now r)"
    by blast
next
  assume h: "n \<le> 3 \<and> fetch_ok (env n) \<and> (\<forall>j<n. \<not> fetch_ok (env j))"
  then show e: "sendWebhook hmac stringify env url payload secret 3 =
        (backoff (delivery_post hmac stringify url payload secret) 1000 n @
           [delivery_post hmac stringify url payload secret], Resolved)"
    by (simp add: sendWebhook_first_success)
  show "length (filter is_post (fst (sendWebhook hmac stringify env url payload secret 3))) = n + 1"
    unfolding e by (simp add: delivery_post_def posts_backoff) (simp add: is_post_def)
qed

theorem sendWebhook_retry_schedule_witness:
  "sendWebhook example_hmac example_stringify endpoint_down ''http://mb/hook'' example_payload
       ''supersecret'' 3 =
     ([delivery_post example_hmac example_stringify ''http://mb/hook'' example_payload ''supersecret'',
       Sleep 1000,
       delivery_post example_hmac example_stringify ''http://mb/hook'' example_payload ''supersecret'',
       Sleep 2000,
       delivery_post example_hmac example_stringify ''http://mb/hook'' example_payload ''supersecret'',
       Sleep 4000,
       delivery_post example_hmac example_stringify ''http://mb/hook'' example_payload ''supersecret''],
      Rejected (FailedWithStatus 500))
   \<and> (\<exists>tr. postOrder_with_delivery example_hmac example_stringify endpoint_down dev_config
               ''o1'' 0 seed_store example_order =
             (createOrder dev_config ''o1'' 0 seed_store example_order,
              [(tr, [FailedWithStatus 500])])
          \<and> length (filter is_post tr) = 4
          \<and> res_status (createOrder dev_config ''o1'' 0 seed_store example_order) = 201)
   \<and> sendWebhook example_hmac example_stringify (endpoint_up_at 2) ''http://mb/hook''
        example_payload ''supersecret'' 3 =
     ([delivery_post example_hmac example_stringify ''http://mb/hook'' example_payload ''supersecret'',
       Sleep 1000,
       delivery_post example_hmac example_stringify ''http://mb/hook'' example_payload ''supersecret'',
       Sleep 2000,
       delivery_post example_hmac example_stringify ''http://mb/hook'' example_payload ''supersecret''],
      Resolved)"
proof -
  have down: "\<forall>k\<le>3. \<not> fetch_ok (endpoint_down k)"
    by (simp add: endpoint_down_def fetch_ok_def response_ok_def)
  have f: "failure_of (endpoint_down 3) = FailedWithStatus 500"
    by (simp add: endpoint_down_def failure_of_def)
  have up: "(2::nat) \<le> 3 \<and> fetch_ok (endpoint_up_at 2 2)
      \<and> (\<forall>j<2. \<not> fetch_ok (endpoint_up_at 2 j))"
    by (simp add: endpoint_up_at_def fetch_ok_def response_ok_def)
  have calc: "calculateOrderTotals [\<lparr>itemId = ''a1'', qty = 2\<rparr>] (catalog seed_store) =
      Inr example_totals"
    by code_simp
  have url: "MARKETBAR_WEBHOOK_URL dev_config \<noteq> []"
    by (simp add: dev_config_def)
  have b: "backoff p 1000 2 = [p, Sleep 1000, p, Sleep 2000]" for p
    by (simp add: eval_nat_numeral backoff_Suc backoff_0)
  note t1 = sendWebhook_retry_schedule[of endpoint_down example_hmac example_stringify
      "''http://mb/hook''" example_payload "''supersecret''" "[\<lparr>itemId = ''a1'', qty = 2\<rparr>]"
      seed_store example_totals dev_config "''o1''" 0 0]
  note t2 = sendWebhook_retry_schedule[of "endpoint_up_at 2" example_hmac example_stringify
      "''http://mb/hook''" example_payload "''supersecret''" "[\<lparr>itemId = ''a1'', qty = 2\<rparr>]"
      seed_store example_totals dev_config "''o1''" 0 2]
  from t1 down have c1: "sendWebhook example_hmac example_stringify endpoint_down ''http://mb/hook''
       example_payload ''supersecret'' 3 =
     ([delivery_post example_hmac example_stringify ''http://mb/hook'' example_payload ''supersecret'',
       Sleep 1000,
       delivery_post example_hmac example_stringify ''http://mb/hook'' example_payload ''supersecret'',
       Sleep 2000,
       delivery_post example_hmac example_stringify ''http://mb/hook'' example_payload ''supersecret'',
       Sleep 4000,
       delivery_post example_hmac example_stringify ''http://mb/hook'' example_payload ''supersecret''],
      Rejected (FailedWithStatus 500))"
    unfolding f by blast
  from t1 down calc url have c2: "\<exists>tr. postOrder_with_delivery example_hmac example_stringify
               endpoint_down dev_config ''o1'' 0 seed_store example_order =
             (createOrder dev_config ''o1'' 0 seed_store example_order,
              [(tr, [FailedWithStatus 500])])
          \<and> length (filter is_post tr) = 4
          \<and> res_status (createOrder dev_config ''o1'' 0 seed_store example_order) = 201"
    unfolding f example_order_def by blast
  from t2 up have c3: "sendWebhook example_hmac example_stringify (endpoint_up_at 2)
        ''http://mb/hook'' example_payload ''supersecret'' 3 =
        (backoff (delivery_post example_hmac example_stringify ''http://mb/hook'' example_payload
           ''supersecret'') 1000 2 @
           [delivery_post example_hmac example_stringify ''http://mb/hook'' example_payload
           ''supersecret''], Resolved)"
    by blast
  show ?thesis
    using c1 c2 c3 unfolding b by simp
qed

end
